theory Spec2Isabelle
  imports Complex_Main "HOL-Library.AList"
begin

section \<open>Arrays, errors and floating-point results\<close>

text \<open>
  A two-dimensional numpy array is a list of rows. The element-wise operations of the
  source combine arrays of one shape; the model zips them, so it follows the source on
  arrays of equal shape (the shapes the callers pass: bins and masks have the shape of
  the array they partition).
\<close>

type_synonym 'a grid = "'a list list"

datatype py_error =
    PreprocessingError
  | UnboundLocalError
  | ZeroDivisionError
  | KeyError
  | ValueError
  | OverflowError

text \<open>
  A float64 result: a finite number, an infinity or NaN. Finite arithmetic is exact
  (no rounding, no overflow, no signed zero); what the model keeps of IEEE arithmetic is
  that dividing by zero and taking the logarithm of a non-positive number do not raise
  but give an infinity or NaN.
\<close>

datatype npfloat = Fin real | PosInf | NegInf | NaN

definition np_div :: "real \<Rightarrow> real \<Rightarrow> npfloat" where
  "np_div a b =
     (if b \<noteq> 0 then Fin (a / b)
      else if a = 0 then NaN
      else if 0 < a then PosInf else NegInf)"

definition zeros :: "'a grid \<Rightarrow> real grid" where
  \<comment> \<open>\<open>np.zeros(X.shape)\<close>\<close>
  "zeros X = map (map (\<lambda>_. 0)) X"

definition grid_scale :: "real \<Rightarrow> real grid \<Rightarrow> real grid" where
  \<comment> \<open>\<open>c * a\<close>\<close>
  "grid_scale c a = map (map (\<lambda>x. c * x)) a"

definition grid_add :: "real grid \<Rightarrow> real grid \<Rightarrow> real grid" where
  \<comment> \<open>\<open>a + b\<close>\<close>
  "grid_add a b = map2 (map2 (+)) a b"

definition grid_div :: "real grid \<Rightarrow> real grid \<Rightarrow> npfloat grid" where
  \<comment> \<open>\<open>a / b\<close>\<close>
  "grid_div a b = map2 (map2 np_div) a b"

definition where_assign :: "int grid \<Rightarrow> int \<Rightarrow> 'a grid \<Rightarrow> 'a grid \<Rightarrow> 'a grid" where
  \<comment> \<open>\<open>indices = np.where(bins == label); a[indices] = v[indices]\<close>, returning the new \<open>a\<close>\<close>
  "where_assign bins label v a =
     map2 (\<lambda>brow (vrow, arow). map2 (\<lambda>b (x, y). if b = label then x else y) brow (zip vrow arow))
       bins (zip v a)"

section \<open>em.py: conditionals and confidence\<close>

text \<open>
  A fitted parameter set is the triple \<open>(w, r, p)\<close> of pairs (index 0 background,
  index 1 cell). \<open>em_results\<close> is either one such triple or a dictionary from bin label
  to triple; the dictionary is an association list in insertion order, which is the order
  \<open>em_results.items()\<close> runs through.
  The probability mass function \<open>stats.nbinom(n, p).pmf\<close> of scipy is the parameter
  \<open>pmf n p x\<close>.
\<close>

type_synonym pair = "real \<times> real"
type_synonym mixture = "pair \<times> pair \<times> pair"

datatype 'm em_results = Single 'm | PerBin "(int \<times> 'm) list"

definition conditionals ::
  "(real \<Rightarrow> real \<Rightarrow> real \<Rightarrow> real) \<Rightarrow> real grid \<Rightarrow> mixture em_results \<Rightarrow> int grid option
     \<Rightarrow> py_error + (real grid \<times> real grid)" where
  "conditionals pmf X em bins =
     (case em of
        PerBin d \<Rightarrow>
          (case bins of
             None \<Rightarrow> Inl PreprocessingError
           | Some b \<Rightarrow>
               Inr (fold (\<lambda>(label, (_, r, p)) (background_cond, cell_cond).
                            (where_assign b label (map (map (pmf (fst r) (fst p))) X) background_cond,
                             where_assign b label (map (map (pmf (snd r) (snd p))) X) cell_cond))
                      d (zeros X, zeros X)))
      | Single (_, r, p) \<Rightarrow>
          Inr (map (map (pmf (fst r) (fst p))) X, map (map (pmf (snd r) (snd p))) X))"

definition confidence ::
  "(real \<Rightarrow> real \<Rightarrow> real \<Rightarrow> real) \<Rightarrow> real grid \<Rightarrow> mixture em_results \<Rightarrow> int grid option
     \<Rightarrow> py_error + npfloat grid" where
  "confidence pmf X em bins =
     (case conditionals pmf X em bins of
        Inl e \<Rightarrow> Inl e
      | Inr (bp, cp) \<Rightarrow>
          (case em of
             PerBin d \<Rightarrow>
               (case bins of
                  None \<Rightarrow> Inl PreprocessingError \<comment> \<open>not reached: \<open>conditionals\<close> has raised\<close>
                | Some b \<Rightarrow>
                    (case fold (\<lambda>(label, (w, _, _)) (tau0, tau1).
                                  (where_assign b label (grid_scale (fst w) bp) tau0,
                                   where_assign b label (grid_scale (snd w) cp) tau1))
                            d (zeros X, zeros X) of
                       (tau0, tau1) \<Rightarrow> Inr (grid_div tau1 (grid_add tau0 tau1))))
           | Single (w, _, _) \<Rightarrow>
               (case (grid_scale (fst w) bp, grid_scale (snd w) cp) of
                  (tau0, tau1) \<Rightarrow> Inr (grid_div tau1 (grid_add tau0 tau1)))))"

section \<open>em.py: nbn_em\<close>

text \<open>
  The EM loop of \<open>nbn_em\<close> (lines 62 to 111). Its floating-point kernel is a parameter:
  the state \<open>'p\<close> stands for the three 2-vectors \<open>(w, lam, theta)\<close>, and
  \<^item> \<open>k_init w mu var\<close> is lines 62 to 65 (\<open>muvar_to_lamtheta\<close>),
  \<^item> \<open>k_step X p\<close> is one E step and M step, lines 74 to 94,
  \<^item> \<open>k_isnan p\<close> is line 96, \<open>np.any(np.isnan(w) | np.isnan(lam) | np.isnan(theta))\<close>,
  \<^item> \<open>k_close p prev precision\<close> is the test of lines 98 to 103, that the largest absolute
    change is below \<open>precision\<close>,
  \<^item> \<open>k_out p\<close> is \<open>(w, lamtheta_to_r(lam, theta), theta)\<close> of line 111.
  What is modelled as written is the control of the loop: the snapshot \<open>prev\<close>, the
  \<open>break\<close>, and the local variable \<open>isnan\<close>, which is unbound (\<open>None\<close>) until the loop
  body has run once.
\<close>

record ('v, 'x, 'e, 'p, 'r) em_kernel =
  k_init :: "'v \<Rightarrow> 'v \<Rightarrow> 'v \<Rightarrow> 'p"
  k_step :: "'x \<Rightarrow> 'p \<Rightarrow> 'p"
  k_isnan :: "'p \<Rightarrow> bool"
  k_close :: "'p \<Rightarrow> 'p \<Rightarrow> 'e \<Rightarrow> bool"
  k_out :: "'p \<Rightarrow> 'r"

fun em_loop ::
  "('v, 'x, 'e, 'p, 'r) em_kernel \<Rightarrow> 'x \<Rightarrow> 'e \<Rightarrow> nat \<Rightarrow> 'p \<Rightarrow> 'p \<Rightarrow> bool option
     \<Rightarrow> 'p \<times> 'p \<times> bool option" where
  "em_loop K X precision 0 cur prev isnan = (cur, prev, isnan)"
| "em_loop K X precision (Suc n) cur prev isnan =
     (let cur' = k_step K X cur;
          isnan' = k_isnan K cur'
      in if k_close K cur' prev precision \<or> isnan'
         then (cur', prev, Some isnan')
         else em_loop K X precision n cur' cur' (Some isnan'))"

definition nbn_em ::
  "('v, 'x, 'e, 'p, 'r) em_kernel \<Rightarrow> 'x \<Rightarrow> 'v \<Rightarrow> 'v \<Rightarrow> 'v \<Rightarrow> int \<Rightarrow> 'e \<Rightarrow> py_error + 'r" where
  "nbn_em K X w mu var max_iter precision =
     (case em_loop K X precision (nat max_iter) (k_init K w mu var) (k_init K w mu var) None of
        (cur, prev, None) \<Rightarrow> Inl UnboundLocalError
      | (cur, prev, Some isnan) \<Rightarrow> Inr (if isnan then k_out K prev else k_out K cur))"

text \<open>
  Float64 arithmetic for the E step and for \<open>run_em\<close>. An arithmetic operation of IEEE
  754 gives the exact result rounded to a float64, or an infinity when that overflows:
  the rounding is the parameter \<open>rnd\<close>, so that what is proved holds for the rounding of
  the machine and for exact arithmetic alike. numpy's logarithm of a positive number is
  the parameter \<open>fp_ln\<close>. The special values follow IEEE 754: an operation on
  NaN gives NaN, as do \<open>inf - inf\<close>, \<open>0 * inf\<close>, \<open>0 / 0\<close> and \<open>inf / inf\<close>, a comparison
  with NaN is false, and nothing raises. Zero has no sign in the model: a zero divisor
  is taken as \<open>+0\<close>.
\<close>

record fp =
  rnd :: "real \<Rightarrow> npfloat"
  fp_ln :: "real \<Rightarrow> npfloat"

fun fl_neg :: "npfloat \<Rightarrow> npfloat" where
  "fl_neg (Fin a) = Fin (- a)"
| "fl_neg PosInf = NegInf"
| "fl_neg NegInf = PosInf"
| "fl_neg NaN = NaN"

fun fl_add :: "fp \<Rightarrow> npfloat \<Rightarrow> npfloat \<Rightarrow> npfloat" where
  "fl_add F (Fin a) (Fin b) = rnd F (a + b)"
| "fl_add F NaN y = NaN"
| "fl_add F (Fin a) NaN = NaN"
| "fl_add F PosInf NaN = NaN"
| "fl_add F NegInf NaN = NaN"
| "fl_add F PosInf NegInf = NaN"
| "fl_add F NegInf PosInf = NaN"
| "fl_add F PosInf (Fin b) = PosInf"
| "fl_add F PosInf PosInf = PosInf"
| "fl_add F (Fin a) PosInf = PosInf"
| "fl_add F NegInf (Fin b) = NegInf"
| "fl_add F NegInf NegInf = NegInf"
| "fl_add F (Fin a) NegInf = NegInf"

definition fl_sub :: "fp \<Rightarrow> npfloat \<Rightarrow> npfloat \<Rightarrow> npfloat" where
  "fl_sub F x y = fl_add F x (fl_neg y)"

definition inf_of_sign :: "real \<Rightarrow> npfloat" where
  \<comment> \<open>the product of \<open>+inf\<close> and a finite number\<close>
  "inf_of_sign a = (if a = 0 then NaN else if 0 < a then PosInf else NegInf)"

fun fl_mul :: "fp \<Rightarrow> npfloat \<Rightarrow> npfloat \<Rightarrow> npfloat" where
  "fl_mul F (Fin a) (Fin b) = rnd F (a * b)"
| "fl_mul F NaN y = NaN"
| "fl_mul F (Fin a) NaN = NaN"
| "fl_mul F PosInf NaN = NaN"
| "fl_mul F NegInf NaN = NaN"
| "fl_mul F PosInf (Fin b) = inf_of_sign b"
| "fl_mul F NegInf (Fin b) = inf_of_sign (- b)"
| "fl_mul F (Fin a) PosInf = inf_of_sign a"
| "fl_mul F (Fin a) NegInf = inf_of_sign (- a)"
| "fl_mul F PosInf PosInf = PosInf"
| "fl_mul F NegInf NegInf = PosInf"
| "fl_mul F PosInf NegInf = NegInf"
| "fl_mul F NegInf PosInf = NegInf"

fun fl_div :: "fp \<Rightarrow> npfloat \<Rightarrow> npfloat \<Rightarrow> npfloat" where
  "fl_div F (Fin a) (Fin b) =
     (if b \<noteq> 0 then rnd F (a / b)
      else if a = 0 then NaN
      else if 0 < a then PosInf else NegInf)"
| "fl_div F NaN y = NaN"
| "fl_div F (Fin a) NaN = NaN"
| "fl_div F PosInf NaN = NaN"
| "fl_div F NegInf NaN = NaN"
| "fl_div F (Fin a) PosInf = Fin 0"
| "fl_div F (Fin a) NegInf = Fin 0"
| "fl_div F PosInf (Fin b) = (if 0 \<le> b then PosInf else NegInf)"
| "fl_div F NegInf (Fin b) = (if 0 \<le> b then NegInf else PosInf)"
| "fl_div F PosInf PosInf = NaN"
| "fl_div F PosInf NegInf = NaN"
| "fl_div F NegInf PosInf = NaN"
| "fl_div F NegInf NegInf = NaN"

fun fl_log :: "fp \<Rightarrow> npfloat \<Rightarrow> npfloat" where
  \<comment> \<open>\<open>np.log\<close>\<close>
  "fl_log F (Fin a) = (if 0 < a then fp_ln F a else if a = 0 then NegInf else NaN)"
| "fl_log F PosInf = PosInf"
| "fl_log F NegInf = NaN"
| "fl_log F NaN = NaN"

fun fl_le :: "npfloat \<Rightarrow> npfloat \<Rightarrow> bool" where
  \<comment> \<open>\<open>x <= y\<close>\<close>
  "fl_le (Fin a) (Fin b) = (a \<le> b)"
| "fl_le NaN y = False"
| "fl_le (Fin a) NaN = False"
| "fl_le PosInf NaN = False"
| "fl_le NegInf NaN = False"
| "fl_le NegInf (Fin b) = True"
| "fl_le NegInf NegInf = True"
| "fl_le NegInf PosInf = True"
| "fl_le (Fin a) PosInf = True"
| "fl_le PosInf PosInf = True"
| "fl_le PosInf (Fin b) = False"
| "fl_le PosInf NegInf = False"
| "fl_le (Fin a) NegInf = False"

fun fl_lt :: "npfloat \<Rightarrow> npfloat \<Rightarrow> bool" where
  \<comment> \<open>\<open>x < y\<close>\<close>
  "fl_lt (Fin a) (Fin b) = (a < b)"
| "fl_lt NaN y = False"
| "fl_lt (Fin a) NaN = False"
| "fl_lt PosInf NaN = False"
| "fl_lt NegInf NaN = False"
| "fl_lt NegInf (Fin b) = True"
| "fl_lt NegInf PosInf = True"
| "fl_lt NegInf NegInf = False"
| "fl_lt (Fin a) PosInf = True"
| "fl_lt PosInf PosInf = False"
| "fl_lt PosInf (Fin b) = False"
| "fl_lt PosInf NegInf = False"
| "fl_lt (Fin a) NegInf = False"

definition exact :: fp where
  \<comment> \<open>arithmetic without rounding\<close>
  "exact = \<lparr>rnd = Fin, fp_ln = (\<lambda>x. Fin (ln x))\<rparr>"

definition rounding :: "fp \<Rightarrow> bool" where
  \<comment> \<open>what the proofs use of a rounding: it keeps the order (so it gives no NaN) and
      0, 1 and 2, which are float64 values, round to themselves\<close>
  "rounding F =
     ((\<forall>x y. x \<le> y \<longrightarrow> fl_le (rnd F x) (rnd F y))
      \<and> rnd F 0 = Fin 0 \<and> rnd F 1 = Fin 1 \<and> rnd F 2 = Fin 2)"

text \<open>
  The conversions between \<open>(mu, var)\<close> and \<open>(lam, theta)\<close> (lines 18 to 36), on one
  component; the source applies them to both components at once.
\<close>

definition lamtheta_to_r :: "fp \<Rightarrow> npfloat \<Rightarrow> npfloat \<Rightarrow> npfloat" where
  "lamtheta_to_r F lam theta = fl_div F (fl_neg lam) (fl_log F theta)"

definition muvar_to_lamtheta :: "fp \<Rightarrow> npfloat \<Rightarrow> npfloat \<Rightarrow> npfloat \<times> npfloat" where
  "muvar_to_lamtheta F mu var =
     (let r = fl_div F (fl_mul F mu mu) (fl_sub F var mu);
          theta = fl_div F mu var;
          lam = fl_mul F (fl_neg r) (fl_log F theta)
      in (lam, theta))"

definition lamtheta_to_muvar :: "fp \<Rightarrow> npfloat \<Rightarrow> npfloat \<Rightarrow> npfloat \<times> npfloat" where
  "lamtheta_to_muvar F lam theta =
     (let r = lamtheta_to_r F lam theta;
          mu = fl_sub F (fl_div F r theta) r;
          var = fl_add F mu (fl_div F (fl_mul F mu mu) r)
      in (mu, var))"

text \<open>
  The E step (lines 74 to 84). The weights, \<open>lam\<close> and \<open>theta\<close> are pairs of float64
  values, NaN and the infinities among them; the samples \<open>X\<close> are finite. \<open>pmf\<close> is
  scipy's \<open>stats.nbinom(n, p).pmf\<close>. The source works on whole arrays, one line after the
  other, and line 83 reads the \<open>tau\<close> that line 82 has changed; the model keeps that
  order. \<open>tau.sum(axis=0)\<close> adds the two rows, and the literal \<open>1e-9\<close> is the float64
  nearest to it.
\<close>

definition e_step ::
  "fp \<Rightarrow> (npfloat \<Rightarrow> npfloat \<Rightarrow> real \<Rightarrow> npfloat) \<Rightarrow> real list
     \<Rightarrow> npfloat \<times> npfloat \<Rightarrow> npfloat \<times> npfloat \<Rightarrow> npfloat \<times> npfloat
     \<Rightarrow> npfloat list \<times> npfloat list" where
  "e_step F pmf X w lam theta =
     (let r = (lamtheta_to_r F (fst lam) (fst theta), lamtheta_to_r F (snd lam) (snd theta));
          bp = map (pmf (fst r) (fst theta)) X;
          cp = map (pmf (snd r) (snd theta)) X;
          tau0 = map (\<lambda>b. fl_mul F (fst w) b) bp;
          tau1 = map (\<lambda>c. fl_mul F (snd w) c) cp;
          mu0 = fst (lamtheta_to_muvar F (fst lam) (fst theta));
          tau0 = map (\<lambda>(x, t0, t1).
                        if fl_le (fl_add F t0 t1) (rnd F (1 / 10 ^ 9)) \<and> fl_lt (Fin x) (fl_mul F mu0 (Fin 2))
                        then Fin 1 else t0)
                   (zip X (zip tau0 tau1));
          tau1 = map (\<lambda>(x, t0, t1).
                        if fl_le (fl_add F t0 t1) (rnd F (1 / 10 ^ 9)) \<and> fl_le (fl_mul F mu0 (Fin 2)) (Fin x)
                        then Fin 1 else t1)
                   (zip X (zip tau0 tau1));
          tau_sum = map2 (fl_add F) tau0 tau1
      in (map2 (fl_div F) tau0 tau_sum, map2 (fl_div F) tau1 tau_sum))"

definition nbinom_pmf :: "npfloat \<Rightarrow> npfloat \<Rightarrow> real \<Rightarrow> npfloat" where
  \<comment> \<open>scipy's \<open>stats.nbinom(n, p).pmf(x)\<close>, without the rounding: NaN for parameters scipy
      refuses (it asks for \<open>n > 0\<close> and \<open>0 < p <= 1\<close>), else the mass at \<open>x\<close>, which is 0
      unless \<open>x\<close> is one of 0, 1, 2, ...\<close>
  "nbinom_pmf n p x =
     (case (n, p) of
        (Fin n', Fin p') \<Rightarrow>
          if 0 < n' \<and> 0 < p' \<and> p' \<le> 1
          then (if x \<in> \<nat>
                then Fin ((\<Prod>i<nat \<lfloor>x\<rfloor>. (n' + real i)) / fact (nat \<lfloor>x\<rfloor>) * p' powr n' * (1 - p') ^ nat \<lfloor>x\<rfloor>)
                else Fin 0)
          else NaN
      | _ \<Rightarrow> NaN)"

text \<open>The state after \<open>n\<close> iterations that did not break.\<close>

definition em_iterate :: "('v, 'x, 'e, 'p, 'r) em_kernel \<Rightarrow> 'x \<Rightarrow> nat \<Rightarrow> 'p \<Rightarrow> 'p" where
  "em_iterate K X n p = (k_step K X ^^ n) p"

section \<open>em.py: run_em\<close>

definition py_int :: "real \<Rightarrow> int" where
  \<comment> \<open>\<open>int(x)\<close> of a finite float: truncation towards zero\<close>
  "py_int x = (if 0 \<le> x then \<lfloor>x\<rfloor> else \<lceil>x\<rceil>)"


definition raster :: "'a grid \<Rightarrow> (nat \<times> nat \<times> 'a) list" where
  \<comment> \<open>\<open>for i in range(a.shape[0]): for j in range(a.shape[1])\<close>, with \<open>a[i, j]\<close>\<close>
  "raster a = concat (map (\<lambda>(i, row). map (\<lambda>(j, x). (i, j, x)) (enumerate 0 row)) (enumerate 0 a))"






definition py_int_fl :: "npfloat \<Rightarrow> py_error + int" where
  \<comment> \<open>\<open>int(x)\<close> of a float: Python raises OverflowError for an infinity and ValueError
      for NaN\<close>
  "py_int_fl x =
     (case x of
        Fin a \<Rightarrow> Inr (py_int a)
      | PosInf \<Rightarrow> Inl OverflowError
      | NegInf \<Rightarrow> Inl OverflowError
      | NaN \<Rightarrow> Inl ValueError)"

definition downsample_count :: "fp \<Rightarrow> real \<Rightarrow> nat \<Rightarrow> nat \<Rightarrow> py_error + int" where
  \<comment> \<open>lines 253 to 255 and 261: \<open>_downsample\<close> for a pool of \<open>n\<close> samples out of \<open>total\<close>.
      \<open>downsample\<close> is a finite float64 value (or an int that float64 represents); the
      product and the quotient are float64 operations, and the quotient
      \<open>len(_samples) / total\<close> of two Python ints raises when \<open>total\<close> is 0\<close>
  "downsample_count F downsample n n_total =
     (let downsample_scale = (downsample \<noteq> of_int (py_int downsample))
      in if downsample_scale then py_int_fl (fl_mul F (Fin (real n)) (Fin downsample))
         else if n_total = 0 then Inl ZeroDivisionError
         else py_int_fl (fl_mul F (Fin downsample) (fl_div F (Fin (real n)) (Fin (real n_total)))))"






section \<open>label.py: _expand_labels\<close>

text \<open>
  Label arrays hold natural numbers (0 is the background; \<open>np.bincount\<close> refuses negative
  entries). The result of \<open>np.where\<close> is the list of the coordinates it selects, and an
  assignment through it changes those pixels. A mask is an array of numbers as well, a
  boolean one holding 0 and 1: \<open>expanded *= mask\<close> multiplies.
\<close>

definition np_where_eq :: "nat grid \<Rightarrow> nat \<Rightarrow> (nat \<times> nat) list" where
  \<comment> \<open>\<open>np.where(a == label)\<close>\<close>
  "np_where_eq a label = map (\<lambda>(i, j, x). (i, j)) (filter (\<lambda>(i, j, x). x = label) (raster a))"

definition assign_at :: "'a grid \<Rightarrow> (nat \<times> nat) list \<Rightarrow> 'a \<Rightarrow> 'a grid" where
  \<comment> \<open>\<open>a[where] = v\<close>, for coordinates inside \<open>a\<close>\<close>
  "assign_at a wh v =
     map (\<lambda>(i, row). map (\<lambda>(j, x). if (i, j) \<in> set wh then v else x) (enumerate 0 row)) (enumerate 0 a)"

definition bincount :: "nat list \<Rightarrow> nat list" where
  \<comment> \<open>\<open>np.bincount\<close>: the count of every value from 0 to the largest\<close>
  "bincount xs = (if xs = [] then [] else map (count_list xs) [0..<Suc (fold max xs 0)])"

definition labels_reaching :: "nat grid \<Rightarrow> int \<Rightarrow> nat list" where
  \<comment> \<open>\<open>(np.bincount(expanded.flatten()) >= max_area).nonzero()[0]\<close>\<close>
  "labels_reaching expanded max_area =
     (let counts = bincount (concat expanded)
      in filter (\<lambda>label. max_area \<le> int (counts ! label)) [0..<length counts])"

definition mul_mask :: "nat grid \<Rightarrow> nat grid \<Rightarrow> nat grid" where
  \<comment> \<open>\<open>expanded *= mask\<close>\<close>
  "mul_mask a m = map2 (map2 (*)) a m"

text \<open>
  \<open>segmentation.expand_labels(a, distance=1)\<close> of skimage is the parameter \<open>expand\<close> of
  the functions below. \<open>sk_expand_labels\<close> is a model of it: a labelled pixel keeps its
  label, and a background pixel takes the label of a labelled pixel at distance 1 (one of
  its four neighbours) when there is one. Where the neighbours carry different labels
  the choice is the library's, the parameter \<open>tie\<close>.
\<close>

definition pixel :: "nat grid \<Rightarrow> int \<Rightarrow> int \<Rightarrow> nat" where
  "pixel a i j =
     (if 0 \<le> i \<and> i < int (length a) \<and> 0 \<le> j \<and> j < int (length (a ! nat i))
      then a ! nat i ! nat j else 0)"

definition sk_expand_labels :: "(nat list \<Rightarrow> nat) \<Rightarrow> nat grid \<Rightarrow> nat grid" where
  "sk_expand_labels tie a =
     map (\<lambda>(i, row).
            map (\<lambda>(j, x).
                   if x \<noteq> 0 then x
                   else (case remdups (filter (\<lambda>l. l \<noteq> 0)
                                [pixel a (int i - 1) (int j), pixel a (int i) (int j - 1),
                                 pixel a (int i) (int j + 1), pixel a (int i + 1) (int j)]) of
                           [] \<Rightarrow> 0
                         | [l] \<Rightarrow> l
                         | ls \<Rightarrow> tie ls))
              (enumerate 0 row))
       (enumerate 0 a)"

text \<open>
  \<open>_expand_labels\<close> on array values. \<open>saved\<close> is a dictionary in insertion order; an
  assignment to a key it has keeps the key's place.
\<close>

type_synonym saved = "(nat \<times> (nat \<times> nat) list) list"

definition remove_label :: "nat \<Rightarrow> nat grid \<times> saved \<Rightarrow> nat grid \<times> saved" where
  \<comment> \<open>lines 143 to 147, for one label\<close>
  "remove_label label =
     (\<lambda>(expanded, saved).
        if 0 < label
        then (let wh = np_where_eq expanded label
              in (assign_at expanded wh 0, AList.update label wh saved))
        else (expanded, saved))"

definition expand_iteration ::
  "(nat grid \<Rightarrow> nat grid) \<Rightarrow> int \<Rightarrow> nat grid option \<Rightarrow> nat grid \<times> saved \<Rightarrow> nat grid \<times> saved" where
  \<comment> \<open>lines 142 to 152: one round of the loop\<close>
  "expand_iteration expand max_area msk =
     (\<lambda>(expanded, saved).
        case fold remove_label (labels_reaching expanded max_area) (expanded, saved) of
          (expanded, saved) \<Rightarrow>
            (case msk of
               None \<Rightarrow> (expand expanded, saved)
             | Some m \<Rightarrow> (mul_mask (expand expanded) m, saved)))"

definition priv_expand_labels ::
  "(nat grid \<Rightarrow> nat grid) \<Rightarrow> nat grid \<Rightarrow> int \<Rightarrow> int \<Rightarrow> nat grid option \<Rightarrow> nat grid" where
  "priv_expand_labels expand labels distance max_area msk =
     (case (expand_iteration expand max_area msk ^^ nat distance) (labels, []) of
        (expanded, saved) \<Rightarrow>
          fold (\<lambda>(label, wh) expanded. assign_at expanded wh label) saved expanded)"

text \<open>
  \<open>_expand_labels\<close> on a store of arrays, for what it does to its argument. An address is
  an index into the store; \<open>labels.copy()\<close> and skimage's \<open>expand_labels\<close> put their
  result into a new array, the indexed assignments and \<open>*=\<close> write into the array that
  \<open>expanded\<close> points to.
\<close>

type_synonym store = "nat grid list"

definition alloc :: "store \<Rightarrow> nat grid \<Rightarrow> store \<times> nat" where
  "alloc s a = (s @ [a], length s)"

definition remove_label_st :: "nat \<Rightarrow> nat \<Rightarrow> store \<times> saved \<Rightarrow> store \<times> saved" where
  "remove_label_st expanded label =
     (\<lambda>(s, saved).
        if 0 < label
        then (let wh = np_where_eq (s ! expanded) label
              in (s[expanded := assign_at (s ! expanded) wh 0], AList.update label wh saved))
        else (s, saved))"

definition expand_iteration_st ::
  "(nat grid \<Rightarrow> nat grid) \<Rightarrow> int \<Rightarrow> nat option \<Rightarrow> store \<times> nat \<times> saved \<Rightarrow> store \<times> nat \<times> saved" where
  "expand_iteration_st expand max_area msk =
     (\<lambda>(s, expanded, saved).
        case fold (remove_label_st expanded) (labels_reaching (s ! expanded) max_area) (s, saved) of
          (s, saved) \<Rightarrow>
            (case alloc s (expand (s ! expanded)) of
               (s, expanded) \<Rightarrow>
                 (case msk of
                    None \<Rightarrow> (s, expanded, saved)
                  | Some m \<Rightarrow> (s[expanded := mul_mask (s ! expanded) (s ! m)], expanded, saved))))"

definition priv_expand_labels_st ::
  "(nat grid \<Rightarrow> nat grid) \<Rightarrow> store \<Rightarrow> nat \<Rightarrow> int \<Rightarrow> int \<Rightarrow> nat option \<Rightarrow> store \<times> nat" where
  "priv_expand_labels_st expand s labels distance max_area msk =
     (case alloc s (s ! labels) of
        (s, expanded) \<Rightarrow>
          (case (expand_iteration_st expand max_area msk ^^ nat distance) (s, expanded, []) of
             (s, expanded, saved) \<Rightarrow>
               (fold (\<lambda>(label, wh) s. s[expanded := assign_at (s ! expanded) wh label]) saved s,
                expanded)))"

section \<open>label.py: _label_connected_components\<close>


definition oversized :: "int list \<Rightarrow> int \<Rightarrow> nat list" where
  \<comment> \<open>\<open>subset_labels\<close>: the labels above 0 in \<open>np.where(areas > max_area)[0]\<close>\<close>
  "oversized areas max_area =
     filter (\<lambda>label. 0 < label) (filter (\<lambda>label. max_area < areas ! label) [0..<length areas])"





section \<open>Properties of the posterior scorer\<close>

text \<open>
  C4. Per-bin parameters with \<open>bins = None\<close>: \<open>conditionals\<close> raises PreprocessingError,
  whatever the array and the dictionary hold, and so does \<open>confidence\<close>, which calls it
  first. The result is the error alone: no array is returned.
\<close>

theorem conditionals_per_bin_without_bins:
  "conditionals pmf X (PerBin d) None = Inl PreprocessingError
   \<and> confidence pmf X (PerBin d) None = Inl PreprocessingError"
  by (simp add: conditionals_def confidence_def)

text \<open>
  C3. The scores are not always in the interval from 0 to 1. With per-bin parameters,
  a pixel whose bin label is no key of the dictionary (label 0, which \<open>run_em\<close> leaves
  out) keeps \<open>tau0 = tau1 = 0\<close>, and the final division gives NaN there. Here: a
  one-pixel array, parameters for bin 1 only, and the pixel in bin 0.
\<close>

theorem confidence_nan_outside_bins:
  "confidence pmf [[5]] (PerBin [(1, ((1/2, 1/2), (1, 1), (1/2, 1/2)))]) (Some [[0]])
     = Inr [[NaN]]"
  by (simp add: conditionals_def confidence_def where_assign_def zeros_def grid_scale_def
      grid_add_def grid_div_def np_div_def)

section \<open>Properties of the E step\<close>

lemma fl_lt_not_le: "fl_lt x y \<Longrightarrow> \<not> fl_le y x"
  by (cases x; cases y) auto

lemma not_fl_lt_le: "\<not> fl_lt (Fin x) m \<Longrightarrow> m \<noteq> NaN \<Longrightarrow> fl_le m (Fin x)"
  by (cases m) auto

lemma rounding_exact: "rounding exact"
  by (simp add: rounding_def exact_def)

lemma rounding_range:
  assumes "rounding F" "lo \<in> {0, 1}" "lo \<le> y" "y \<le> 2"
  shows "\<exists>s. rnd F y = Fin s \<and> lo \<le> s \<and> s \<le> 2"
proof -
  have lo: "rnd F lo = Fin lo"
    using assms(1,2) by (auto simp: rounding_def)
  have "fl_le (Fin lo) (rnd F y)" "fl_le (rnd F y) (Fin 2)"
    using assms lo by (auto simp: rounding_def dest: spec2)
  then show ?thesis
    by (cases "rnd F y") auto
qed

lemma e_step_nth:
  assumes "i < length X"
  shows "fst (e_step F pmf X w lam theta) ! i =
    (let t0 = fl_mul F (fst w) (pmf (lamtheta_to_r F (fst lam) (fst theta)) (fst theta) (X ! i));
         t1 = fl_mul F (snd w) (pmf (lamtheta_to_r F (snd lam) (snd theta)) (snd theta) (X ! i));
         m = fl_mul F (fst (lamtheta_to_muvar F (fst lam) (fst theta))) (Fin 2);
         t0' = (if fl_le (fl_add F t0 t1) (rnd F (1 / 10 ^ 9)) \<and> fl_lt (Fin (X ! i)) m then Fin 1 else t0);
         t1' = (if fl_le (fl_add F t0' t1) (rnd F (1 / 10 ^ 9)) \<and> fl_le m (Fin (X ! i)) then Fin 1 else t1)
     in fl_div F t0' (fl_add F t0' t1'))"
   and "snd (e_step F pmf X w lam theta) ! i =
    (let t0 = fl_mul F (fst w) (pmf (lamtheta_to_r F (fst lam) (fst theta)) (fst theta) (X ! i));
         t1 = fl_mul F (snd w) (pmf (lamtheta_to_r F (snd lam) (snd theta)) (snd theta) (X ! i));
         m = fl_mul F (fst (lamtheta_to_muvar F (fst lam) (fst theta))) (Fin 2);
         t0' = (if fl_le (fl_add F t0 t1) (rnd F (1 / 10 ^ 9)) \<and> fl_lt (Fin (X ! i)) m then Fin 1 else t0);
         t1' = (if fl_le (fl_add F t0' t1) (rnd F (1 / 10 ^ 9)) \<and> fl_le m (Fin (X ! i)) then Fin 1 else t1)
     in fl_div F t1' (fl_add F t0' t1'))"
  using assms by (simp_all add: e_step_def Let_def)

lemma fl_NaN_right [simp]:
  "fl_add F x NaN = NaN" "fl_mul F x NaN = NaN" "fl_div F x NaN = NaN" "fl_le x NaN = False"
  by (cases x; simp)+

lemma nbinom_pmf_refused: "1 < p \<Longrightarrow> nbinom_pmf n (Fin p) x = NaN"
  by (cases n) (simp_all add: nbinom_pmf_def)

text \<open>
  C2, as stated, fails: an E step can leave NaN responsibilities. With the initial guess
  \<open>mu = (10, 300)\<close>, \<open>var = (5, 400)\<close> the background \<open>theta\<close> is \<open>10 / 5 = 2\<close>, which
  is no probability, so scipy's mass function gives NaN, the weighted likelihood and the
  sum are NaN, both tests \<open><= 1e-9\<close> are false, nothing is forced, and after the division
  both responsibilities of the pixel are NaN: they do not add up to 1.
\<close>

theorem e_step_nan_counterexample:
  "e_step exact nbinom_pmf [5] (Fin (99 / 100), Fin (1 / 100))
     (fst (muvar_to_lamtheta exact (Fin 10) (Fin 5)), fst (muvar_to_lamtheta exact (Fin 300) (Fin 400)))
     (snd (muvar_to_lamtheta exact (Fin 10) (Fin 5)), snd (muvar_to_lamtheta exact (Fin 300) (Fin 400)))
   = ([NaN], [NaN])"
proof -
  have theta0: "snd (muvar_to_lamtheta exact (Fin 10) (Fin 5)) = Fin 2"
    by (simp add: muvar_to_lamtheta_def Let_def exact_def)
  show ?thesis
    by (simp add: e_step_def Let_def theta0 nbinom_pmf_refused)
qed

text \<open>
  C2, amended. At a pixel whose two weighted likelihoods \<open>a0\<close>, \<open>a1\<close> are numbers from 0
  to 1 and where \<open>2 * mu0\<close> (here \<open>m\<close>, computed as the source does from \<open>lam\<close> and
  \<open>theta\<close>) is not NaN: when the float64 sum of \<open>a0\<close> and \<open>a1\<close> is at most \<open>1e-9\<close>, line 82
  sets \<open>tau0\<close> to 1 if \<open>X < 2 * mu0\<close> and line 83 sets \<open>tau1\<close> to 1 otherwise, the other
  value being kept; the divisor \<open>tau.sum(axis=0)\<close> is then a positive finite number \<open>s\<close>,
  and the two responsibilities are the rounded quotients of the forced values by \<open>s\<close>.
  In exact arithmetic they add up to 1; in float64 they do so up to the rounding of the
  sum and of the two quotients.
\<close>

theorem e_step_forced:
  fixes F :: fp and X :: "real list" and w lam theta :: "npfloat \<times> npfloat"
  assumes F: "rounding F"
    and i: "i < length X"
    and r0: "r0 = fl_div F (fl_neg (fst lam)) (fl_log F (fst theta))"
    and r1: "r1 = fl_div F (fl_neg (snd lam)) (fl_log F (snd theta))"
    and m_def: "m = fl_mul F (fl_sub F (fl_div F r0 (fst theta)) r0) (Fin 2)"
    and m: "m \<noteq> NaN"
    and t0: "fl_mul F (fst w) (pmf r0 (fst theta) (X ! i)) = Fin a0" "0 \<le> a0" "a0 \<le> 1"
    and t1: "fl_mul F (snd w) (pmf r1 (snd theta) (X ! i)) = Fin a1" "0 \<le> a1" "a1 \<le> 1"
    and forced_def: "forced = fl_le (rnd F (a0 + a1)) (rnd F (1 / 10 ^ 9))"
    and t0'_def: "t0' = (if forced \<and> fl_lt (Fin (X ! i)) m then 1 else a0)"
    and t1'_def: "t1' = (if forced \<and> \<not> fl_lt (Fin (X ! i)) m then 1 else a1)"
  shows "\<exists>s. 0 < s \<and> rnd F (t0' + t1') = Fin s
           \<and> fst (e_step F pmf X w lam theta) ! i = rnd F (t0' / s)
           \<and> snd (e_step F pmf X w lam theta) ! i = rnd F (t1' / s)
           \<and> ((\<forall>x. rnd F x = Fin x) \<longrightarrow> t0' / s + t1' / s = 1)"
proof -
  have m_eq: "fl_mul F (fst (lamtheta_to_muvar F (fst lam) (fst theta))) (Fin 2) = m"
    by (simp add: m_def r0 lamtheta_to_muvar_def lamtheta_to_r_def Let_def)
  have r_eq: "lamtheta_to_r F (fst lam) (fst theta) = r0" "lamtheta_to_r F (snd lam) (snd theta) = r1"
    by (simp_all add: r0 r1 lamtheta_to_r_def)
  obtain c where c: "rnd F (1 / 10 ^ 9) = Fin c" "0 \<le> c"
    using rounding_range[OF F, of 0 "1 / 10 ^ 9"] by auto
  obtain s0 where s0: "rnd F (a0 + a1) = Fin s0" "0 \<le> s0"
    using rounding_range[OF F, of 0 "a0 + a1"] t0 t1 by auto
  have forced_iff: "forced \<longleftrightarrow> s0 \<le> c"
    by (simp only: forced_def c s0 fl_le.simps)
  \<comment> \<open>the values of \<open>tau\<close> after lines 82 and 83\<close>
  define u0 where "u0 = (if fl_le (fl_add F (Fin a0) (Fin a1)) (rnd F (1 / 10 ^ 9)) \<and> fl_lt (Fin (X ! i)) m
                         then Fin 1 else Fin a0)"
  define u1 where "u1 = (if fl_le (fl_add F u0 (Fin a1)) (rnd F (1 / 10 ^ 9)) \<and> fl_le m (Fin (X ! i))
                         then Fin 1 else Fin a1)"
  have out: "fst (e_step F pmf X w lam theta) ! i = fl_div F u0 (fl_add F u0 u1)"
            "snd (e_step F pmf X w lam theta) ! i = fl_div F u1 (fl_add F u0 u1)"
    using e_step_nth[OF i, of F pmf w lam theta]
    by (simp_all add: Let_def r_eq m_eq t0 t1 u0_def u1_def)
  have u0: "u0 = Fin t0'"
    by (simp add: u0_def t0'_def forced_def)
  have u1: "u1 = Fin t1'"
  proof (cases "forced \<and> fl_lt (Fin (X ! i)) m")
    case True
    then have "\<not> fl_le m (Fin (X ! i))" by (simp add: fl_lt_not_le)
    with True show ?thesis by (simp add: u1_def t1'_def)
  next
    case False
    then have "u0 = Fin a0" by (auto simp: u0_def forced_def)
    moreover have "fl_le m (Fin (X ! i))" if "\<not> fl_lt (Fin (X ! i)) m"
      using that m by (rule not_fl_lt_le)
    ultimately show ?thesis
      using False by (auto simp: u1_def t1'_def forced_def)
  qed
  have "\<exists>s. rnd F (t0' + t1') = Fin s \<and> 0 < s"
  proof (cases forced)
    case True
    then have "1 \<le> t0' + t1'" "t0' + t1' \<le> 2"
      using t0 t1 by (auto simp: t0'_def t1'_def)
    from rounding_range[OF F _ this, simplified] show ?thesis
      by force
  next
    case False
    then have "t0' + t1' = a0 + a1" "c < s0"
      by (auto simp: t0'_def t1'_def forced_iff)
    then show ?thesis using s0 c by auto
  qed
  then obtain s where s: "rnd F (t0' + t1') = Fin s" "0 < s" by blast
  have "fl_div F u0 (fl_add F u0 u1) = rnd F (t0' / s)" "fl_div F u1 (fl_add F u0 u1) = rnd F (t1' / s)"
    using s by (simp_all add: u0 u1)
  moreover have "t0' / s + t1' / s = 1" if "\<forall>x. rnd F x = Fin x"
  proof -
    have "s = t0' + t1'" using s(1) that by simp
    then show ?thesis using s(2) by (simp add: add_divide_distrib[symmetric])
  qed
  ultimately show ?thesis
    using s out by auto
qed

theorem e_step_forced_witness:
  "(\<exists>s. 0 < s \<and> rnd exact (99 / 200 + 1 / 200) = Fin s
       \<and> fst (e_step exact nbinom_pmf [0] (Fin (99 / 100), Fin (1 / 100))
                (Fin (ln 2), Fin (ln 2)) (Fin (1 / 2), Fin (1 / 2))) ! 0 = rnd exact (99 / 200 / s)
       \<and> snd (e_step exact nbinom_pmf [0] (Fin (99 / 100), Fin (1 / 100))
                (Fin (ln 2), Fin (ln 2)) (Fin (1 / 2), Fin (1 / 2))) ! 0 = rnd exact (1 / 200 / s))
   \<and> (\<exists>s. 0 < s \<and> rnd exact (0 + 1) = Fin s
       \<and> fst (e_step exact (\<lambda>n p x. Fin 0) [5] (Fin (99 / 100), Fin (1 / 100))
                (Fin (ln 2), Fin (ln 2)) (Fin (1 / 2), Fin (1 / 2))) ! 0 = rnd exact (0 / s)
       \<and> snd (e_step exact (\<lambda>n p x. Fin 0) [5] (Fin (99 / 100), Fin (1 / 100))
                (Fin (ln 2), Fin (ln 2)) (Fin (1 / 2), Fin (1 / 2))) ! 0 = rnd exact (1 / s))"
proof -
  let ?w = "(Fin (99 / 100), Fin (1 / 100))" and ?lam = "(Fin (ln 2), Fin (ln 2))"
    and ?theta = "(Fin (1 / 2), Fin (1 / 2)) :: npfloat \<times> npfloat"
  have ln_half: "ln (1 / 2 :: real) = - ln 2"
    by (simp add: ln_div)
  have r: "Fin 1 = fl_div exact (fl_neg (Fin (ln 2))) (fl_log exact (Fin (1 / 2)))"
    by (simp add: exact_def ln_half)
  have m: "Fin 2 = fl_mul exact (fl_sub exact (fl_div exact (Fin 1) (Fin (1 / 2))) (Fin 1)) (Fin 2)"
    by (simp add: exact_def fl_sub_def)
  have pmf0: "nbinom_pmf (Fin 1) (Fin (1 / 2)) 0 = Fin (1 / 2)"
    by (simp add: nbinom_pmf_def)
  have "\<exists>s. 0 < s \<and> rnd exact (99 / 200 + 1 / 200) = Fin s
       \<and> fst (e_step exact nbinom_pmf [0] ?w ?lam ?theta) ! 0 = rnd exact (99 / 200 / s)
       \<and> snd (e_step exact nbinom_pmf [0] ?w ?lam ?theta) ! 0 = rnd exact (1 / 200 / s)
       \<and> ((\<forall>x. rnd exact x = Fin x) \<longrightarrow> 99 / 200 / s + 1 / 200 / s = 1)"
  proof (rule e_step_forced[where ?r0.0 = "Fin 1" and ?r1.0 = "Fin 1" and m = "Fin 2"
          and ?a0.0 = "99 / 200" and ?a1.0 = "1 / 200" and forced = False])
    show "rounding exact" by (rule rounding_exact)
    show "Fin 1 = fl_div exact (fl_neg (fst ?lam)) (fl_log exact (fst ?theta))"
      using r by simp
    show "Fin 1 = fl_div exact (fl_neg (snd ?lam)) (fl_log exact (snd ?theta))"
      using r by simp
    show "Fin 2 = fl_mul exact (fl_sub exact (fl_div exact (Fin 1) (fst ?theta)) (Fin 1)) (Fin 2)"
      using m by simp
    show "fl_mul exact (fst ?w) (nbinom_pmf (Fin 1) (fst ?theta) ([0] ! 0)) = Fin (99 / 200)"
      by (simp add: pmf0) (simp add: exact_def)
    show "fl_mul exact (snd ?w) (nbinom_pmf (Fin 1) (snd ?theta) ([0] ! 0)) = Fin (1 / 200)"
      by (simp add: pmf0) (simp add: exact_def)
    show "False = fl_le (rnd exact (99 / 200 + 1 / 200)) (rnd exact (1 / 10 ^ 9))"
      by (simp add: exact_def)
  qed simp_all
  moreover have "\<exists>s. 0 < s \<and> rnd exact (0 + 1) = Fin s
       \<and> fst (e_step exact (\<lambda>n p x. Fin 0) [5] ?w ?lam ?theta) ! 0 = rnd exact (0 / s)
       \<and> snd (e_step exact (\<lambda>n p x. Fin 0) [5] ?w ?lam ?theta) ! 0 = rnd exact (1 / s)
       \<and> ((\<forall>x. rnd exact x = Fin x) \<longrightarrow> 0 / s + 1 / s = 1)"
  proof (rule e_step_forced[where ?r0.0 = "Fin 1" and ?r1.0 = "Fin 1" and m = "Fin 2"
          and ?a0.0 = 0 and ?a1.0 = 0 and forced = True])
    show "rounding exact" by (rule rounding_exact)
    show "Fin 1 = fl_div exact (fl_neg (fst ?lam)) (fl_log exact (fst ?theta))"
      using r by simp
    show "Fin 1 = fl_div exact (fl_neg (snd ?lam)) (fl_log exact (snd ?theta))"
      using r by simp
    show "Fin 2 = fl_mul exact (fl_sub exact (fl_div exact (Fin 1) (fst ?theta)) (Fin 1)) (Fin 2)"
      using m by simp
    show "fl_mul exact (fst ?w) (Fin 0) = Fin 0" "fl_mul exact (snd ?w) (Fin 0) = Fin 0"
      by (simp_all add: exact_def)
    show "True = fl_le (rnd exact (0 + 0)) (rnd exact (1 / 10 ^ 9))"
      by (simp add: exact_def)
  qed simp_all
  ultimately show ?thesis
    by blast
qed

section \<open>Properties of the EM loop\<close>

lemma em_loop_flag_set:
  "em_loop K X precision (Suc n) cur prev isnan = (c, p, f) \<Longrightarrow> f \<noteq> None"
  by (induction n arbitrary: cur prev isnan) (auto simp: Let_def split: if_splits)

text \<open>
  With at least one iteration allowed, \<open>nbn_em\<close> returns a result: the loop body sets
  \<open>isnan\<close> before the \<open>return\<close> reads it.
\<close>

lemma nbn_em_returns:
  assumes "0 < max_iter"
  shows "\<exists>r. nbn_em K X w mu var max_iter precision = Inr r"
proof -
  obtain n where n: "nat max_iter = Suc n"
    using assms by (metis Suc_pred zero_less_nat_eq)
  obtain c p f where e:
    "em_loop K X precision (Suc n) (k_init K w mu var) (k_init K w mu var) None = (c, p, f)"
    by (metis prod_cases3)
  then obtain b where "f = Some b"
    using em_loop_flag_set by fastforce
  with e n show ?thesis
    by (simp add: nbn_em_def)
qed

text \<open>
  The snapshot: when the first \<open>i\<close> iterations neither converge nor give NaN and
  iteration \<open>i + 1\<close> gives NaN, the loop stops with \<open>prev\<close> the state after iteration
  \<open>i\<close> (the initial state when \<open>i = 0\<close>).
\<close>

lemma em_loop_nan_snapshot:
  assumes "\<And>j. j < i \<Longrightarrow> \<not> k_close K (em_iterate K X (Suc j) p0) (em_iterate K X j p0) precision
                          \<and> \<not> k_isnan K (em_iterate K X (Suc j) p0)"
    and "k_isnan K (em_iterate K X (Suc i) p0)"
    and "i < n"
  shows "em_loop K X precision n p0 p0 isnan
           = (em_iterate K X (Suc i) p0, em_iterate K X i p0, Some True)"
  using assms
proof (induction i arbitrary: n p0 isnan)
  case 0
  then obtain m where "n = Suc m" by (cases n) auto
  with 0 show ?case by (simp add: em_iterate_def)
next
  case (Suc i)
  then obtain m where m: "n = Suc m" "i < m" by (cases n) auto
  have step: "\<not> k_close K (k_step K X p0) p0 precision" "\<not> k_isnan K (k_step K X p0)"
    using Suc.prems(1)[of 0] by (simp_all add: em_iterate_def)
  have shift: "em_iterate K X j (k_step K X p0) = em_iterate K X (Suc j) p0" for j
    by (simp add: em_iterate_def funpow_swap1)
  have "em_loop K X precision m (k_step K X p0) (k_step K X p0) (Some False)
          = (em_iterate K X (Suc i) (k_step K X p0), em_iterate K X i (k_step K X p0), Some True)"
  proof (rule Suc.IH)
    show "\<not> k_close K (em_iterate K X (Suc j) (k_step K X p0)) (em_iterate K X j (k_step K X p0)) precision
            \<and> \<not> k_isnan K (em_iterate K X (Suc j) (k_step K X p0))" if "j < i" for j
      using Suc.prems(1)[of "Suc j"] that by (simp add: shift)
    show "k_isnan K (em_iterate K X (Suc i) (k_step K X p0))"
      using Suc.prems(2) by (simp add: shift)
    show "i < m" by (rule m(2))
  qed
  with m step show ?case
    by (simp add: shift)
qed

lemma nbn_em_nan_snapshot:
  assumes "\<And>j. j < i \<Longrightarrow>
             \<not> k_close K (em_iterate K X (Suc j) (k_init K w mu var)) (em_iterate K X j (k_init K w mu var)) precision
             \<and> \<not> k_isnan K (em_iterate K X (Suc j) (k_init K w mu var))"
    and "k_isnan K (em_iterate K X (Suc i) (k_init K w mu var))"
    and "int i < max_iter"
  shows "nbn_em K X w mu var max_iter precision = Inr (k_out K (em_iterate K X i (k_init K w mu var)))"
proof -
  have "i < nat max_iter" using assms(3) by simp
  then have "em_loop K X precision (nat max_iter) (k_init K w mu var) (k_init K w mu var) None
               = (em_iterate K X (Suc i) (k_init K w mu var), em_iterate K X i (k_init K w mu var), Some True)"
    using assms(1,2) by (intro em_loop_nan_snapshot) auto
  then show ?thesis by (simp add: nbn_em_def)
qed

text \<open>
  C1. With \<open>max_iter = 0\<close> the loop body never runs, \<open>isnan\<close> is never assigned, and the
  \<open>return\<close> statement, which reads \<open>isnan\<close> first, raises UnboundLocalError: \<open>nbn_em\<close>
  does raise for a \<open>max_iter >= 0\<close>. (For \<open>max_iter > 0\<close> it returns, and returns the
  snapshot before the NaN: the two lemmas above.)
\<close>

theorem nbn_em_max_iter_zero_raises:
  "nbn_em K X w mu var 0 precision = Inl UnboundLocalError"
  by (simp add: nbn_em_def)

section \<open>Properties of _expand_labels\<close>

text \<open>
  C5. A label that has reached \<open>max_area\<close> does not always keep its pixels. On the row
  \<open>[1, 1, 2]\<close> with \<open>distance = 2\<close> and \<open>max_area = 2\<close>, label 1 (area 2) is saved and
  removed in the first round, and label 2 grows into the pixel it left; in the second
  round label 2 has area 2 and is saved with that pixel. The saved labels are written
  back in the order they were saved, label 2 last, so label 1 loses the pixel
  \<open>(0, 1)\<close> to label 2: the result is \<open>[1, 2, 2]\<close>, whatever skimage does where two labels
  are equally near (it does not happen here).
\<close>

theorem expand_labels_overwrites_saved_label:
  "priv_expand_labels (sk_expand_labels tie) [[1, 1, 2]] 2 2 None = [[1, 2, 2]]
   \<and> np_where_eq [[1, 1, 2]] 1 = [(0, 0), (0, 1)]
   \<and> np_where_eq (priv_expand_labels (sk_expand_labels tie) [[1, 1, 2]] 2 2 None) 1 = [(0, 0)]"
  by code_simp

section \<open>Properties of _label_connected_components\<close>

lemma assign_at_length [simp]: "length (assign_at a wh v) = length a"
  by (simp add: assign_at_def)

lemma assign_at_row_length [simp]: "i < length a \<Longrightarrow> length (assign_at a wh v ! i) = length (a ! i)"
  by (simp add: assign_at_def nth_enumerate_eq)













lemma oversized_positive: "l \<in> set (oversized areas max_area) \<Longrightarrow> 0 < l"
  by (simp add: oversized_def)



section \<open>Properties of run_em\<close>


text \<open>
  The count follows the rounding of the machine. For a budget of 100 and a pool of 29
  samples out of 100, float64 rounds \<open>29 / 100\<close> to a number \<open>q\<close> below it and
  \<open>100 * q\<close> to a number below 29, so the count is 28 and the pool is downsampled; in
  exact arithmetic the count is 29.
\<close>

lemma downsample_count_rounded_down:
  assumes "rnd F (29 / 100) = Fin q" and "rnd F (100 * q) = Fin p" and "28 \<le> p" and "p < 29"
  shows "downsample_count F 100 29 100 = Inr 28"
proof -
  have "py_int p = 28"
    using assms(3,4) by (simp add: py_int_def) linarith
  then show ?thesis
    using assms(1,2) by (simp add: downsample_count_def py_int_def py_int_fl_def)
qed



end
